theory Spec2Isabelle
  imports Main "HOL-Library.Log_Nat"
begin

section \<open>Python floats\<close>

text \<open>
  The costs of \<^verbatim>\<open>brain.py\<close> are Python floats: IEEE 754 binary64 values, every
  operation rounded to the nearest representable value, ties to even. A float is
  modelled by the rational number it denotes, and an operation by the exact rational
  operation followed by the rounding \<open>fl\<close>: 53 significant bits, no bound on the exponent.
  The exponent of a binary64 value is bounded (about \<open>10\<^sup>-\<^sup>3\<^sup>0\<^sup>8\<close> to \<open>10\<^sup>3\<^sup>0\<^sup>8\<close>); the costs
  computed here lie between \<open>1.5e-05\<close> (one token) and the cost of a text of \<open>2\<^sup>6\<^sup>3\<close>
  characters, and a ledger is a sum of such costs, far inside that range, so neither
  underflow nor overflow is modelled. Python's \<^verbatim>\<open>int / int\<close> is correctly rounded
  whatever the size of the operands, and the literal \<^verbatim>\<open>0.015\<close> is the float nearest
  to 15/1000.
\<close>

type_synonym pyfloat = rat

definition ilog2 :: "rat \<Rightarrow> int" where
  \<comment> \<open>\<open>\<lfloor>log\<^sub>2 x\<rfloor>\<close> for \<open>x > 0\<close>\<close>
  "ilog2 x = (if 1 \<le> x then bitlen \<lfloor>x\<rfloor> - 1 else - bitlen (\<lceil>1 / x\<rceil> - 1))"

definition round_half_even :: "rat \<Rightarrow> int" where
  "round_half_even x =
     (let f = \<lfloor>x\<rfloor>; r = x - of_int f
      in if r < 1 / 2 then f else if 1 / 2 < r then f + 1 else if even f then f else f + 1)"

definition fl :: "rat \<Rightarrow> pyfloat" where
  \<comment> \<open>the binary64 value nearest to \<open>x\<close>\<close>
  "fl x = (if x = 0 then 0
           else let e = ilog2 \<bar>x\<bar> - 52; m = round_half_even (\<bar>x\<bar> / 2 powi e)
                in sgn x * of_int m * 2 powi e)"

definition float_add :: "pyfloat \<Rightarrow> pyfloat \<Rightarrow> pyfloat" where
  \<comment> \<open>Python's \<^verbatim>\<open>a + b\<close> on floats\<close>
  "float_add a b = fl (a + b)"

definition float_mul :: "pyfloat \<Rightarrow> pyfloat \<Rightarrow> pyfloat" where
  \<comment> \<open>Python's \<^verbatim>\<open>a * b\<close> on floats\<close>
  "float_mul a b = fl (a * b)"

definition int_truediv :: "int \<Rightarrow> int \<Rightarrow> pyfloat" where
  \<comment> \<open>Python's \<^verbatim>\<open>a / b\<close> on ints with \<open>b \<noteq> 0\<close>: the correctly rounded quotient\<close>
  "int_truediv a b = fl (of_int a / of_int b)"

definition float_truediv :: "pyfloat \<Rightarrow> int \<Rightarrow> pyfloat" where
  \<comment> \<open>Python's \<^verbatim>\<open>a / b\<close> for a float \<open>a\<close> and an int \<open>b \<noteq> 0\<close> below \<open>2\<^sup>5\<^sup>3\<close>\<close>
  "float_truediv a b = fl (a / of_int b)"

section \<open>The module \<^verbatim>\<open>brain.py\<close>\<close>

subsection \<open>Constants\<close>

definition COST_PER_1K_TOKENS :: pyfloat where
  \<comment> \<open>the float literal \<^verbatim>\<open>0.015\<close>\<close>
  "COST_PER_1K_TOKENS = fl (15 / 1000)"

definition CHARS_PER_TOKEN :: int where
  "CHARS_PER_TOKEN = 4"

definition OLLAMA_HOST :: string where
  "OLLAMA_HOST = ''http://localhost:11434''"

definition DEFAULT_MODEL :: string where
  "DEFAULT_MODEL = ''llama3.1''"

subsection \<open>Data\<close>

text \<open>
  A Python \<^verbatim>\<open>str\<close> is a \<open>string\<close>, one \<open>char\<close> per code point: the module only
  takes lengths, concatenates and tests for emptiness. The field \<^verbatim>\<open>text\<close> of
  \<^verbatim>\<open>LLMResponse\<close> is \<open>text_content\<close> here, and its field \<^verbatim>\<open>model\<close> is
  \<open>response_model\<close>.
\<close>

record LLMResponse =
  text_content :: string
  estimated_tokens :: int
  simulated_cost :: pyfloat
  response_model :: string

text \<open>
  The attributes of an \<^verbatim>\<open>LLMBrain\<close>. Its \<^verbatim>\<open>_client\<close> is the external engine: the
  two calls the module makes on it, \<^verbatim>\<open>chat\<close> and \<^verbatim>\<open>list\<close>, are parameters of the
  operations that make them.
\<close>

record LLMBrain =
  model :: string
  host :: string
  total_tokens_used :: int
  total_cost_incurred :: pyfloat

text \<open>
  What the engine can raise is an instance of Python's \<^verbatim>\<open>Exception\<close>; so is the
  \<^verbatim>\<open>KeyError\<close> of a subscript that finds no key.
\<close>

datatype exn = ConnectionError string | ResponseError string | KeyError string | OtherException string

record message =
  role :: string
  content :: string

type_synonym chat_response = "string \<rightharpoonup> (string \<rightharpoonup> string)"

type_synonym chat_fn = "string \<Rightarrow> message list \<Rightarrow> exn + chat_response"

datatype pyvalue = PyInt int | PyFloat pyfloat | PyStr string

subsection \<open>Operations\<close>

definition LLMBrain_init :: "string \<Rightarrow> string \<Rightarrow> LLMBrain" where
  "LLMBrain_init model0 host0 =
     \<lparr>model = model0, host = host0, total_tokens_used = 0, total_cost_incurred = 0\<rparr>"

definition calculate_simulated_cost :: "string \<Rightarrow> int \<times> pyfloat" where
  "calculate_simulated_cost text0 =
     (let estimated_tokens0 = max 1 (int (length text0) div CHARS_PER_TOKEN);
          simulated_cost0 = float_mul (int_truediv estimated_tokens0 1000) COST_PER_1K_TOKENS
      in (estimated_tokens0, simulated_cost0))"

definition build_messages :: "string \<Rightarrow> string option \<Rightarrow> message list" where
  \<comment> \<open>lines 181 to 192: the system message only when \<^verbatim>\<open>system_message\<close> is truthy\<close>
  "build_messages prompt system_message =
     (case system_message of
        None \<Rightarrow> []
      | Some s \<Rightarrow> if s \<noteq> [] then [\<lparr>role = ''system'', content = s\<rparr>] else [])
     @ [\<lparr>role = ''user'', content = prompt\<rparr>]"

definition or_empty :: "string option \<Rightarrow> string" where
  \<comment> \<open>\<^verbatim>\<open>system_message or ""\<close>\<close>
  "or_empty system_message =
     (case system_message of None \<Rightarrow> [] | Some s \<Rightarrow> if s \<noteq> [] then s else [])"

definition input_text :: "string \<Rightarrow> string option \<Rightarrow> string" where
  \<comment> \<open>line 195\<close>
  "input_text prompt system_message = or_empty system_message @ prompt"

definition extract_content :: "chat_response \<Rightarrow> exn + string" where
  \<comment> \<open>\<^verbatim>\<open>response["message"]["content"]\<close>\<close>
  "extract_content response =
     (case response ''message'' of
        None \<Rightarrow> Inl (KeyError ''message'')
      | Some m \<Rightarrow>
          (case m ''content'' of
             None \<Rightarrow> Inl (KeyError ''content'')
           | Some t \<Rightarrow> Inr t))"

text \<open>
  \<^verbatim>\<open>generate_response\<close> returns what the caller gets (the exception raised, or the
  response) and the brain after the call.
\<close>

definition generate_response ::
  "chat_fn \<Rightarrow> LLMBrain \<Rightarrow> string \<Rightarrow> string option \<Rightarrow> (exn + LLMResponse) \<times> LLMBrain" where
  "generate_response chat self prompt system_message =
     (let messages = build_messages prompt system_message;
          (input_tokens, input_cost) = calculate_simulated_cost (input_text prompt system_message)
      in case chat (model self) messages of
           Inl e \<Rightarrow> (Inl e, self)
         | Inr response \<Rightarrow>
             (case extract_content response of
                Inl e \<Rightarrow> (Inl e, self)
              | Inr response_text \<Rightarrow>
                  (let (output_tokens, output_cost) = calculate_simulated_cost response_text;
                       total_tokens = input_tokens + output_tokens;
                       total_cost = float_add input_cost output_cost
                   in (Inr \<lparr>text_content = response_text,
                            estimated_tokens = total_tokens,
                            simulated_cost = total_cost,
                            response_model = model self\<rparr>,
                       self\<lparr>total_tokens_used := total_tokens_used self + total_tokens,
                            total_cost_incurred :=
                              float_add (total_cost_incurred self) total_cost\<rparr>))))"

definition get_fiscal_summary :: "LLMBrain \<Rightarrow> (string \<rightharpoonup> pyvalue)" where
  "get_fiscal_summary self =
     [''total_tokens_used'' \<mapsto> PyInt (total_tokens_used self),
      ''total_cost_incurred'' \<mapsto> PyFloat (total_cost_incurred self),
      ''cost_per_1k_tokens'' \<mapsto> PyFloat COST_PER_1K_TOKENS,
      ''model'' \<mapsto> PyStr (model self)]"

definition check_connection :: "(exn + string list) \<Rightarrow> LLMBrain \<Rightarrow> exn + bool" where
  \<comment> \<open>the first argument is what \<^verbatim>\<open>self._client.list()\<close> does: raise or return\<close>
  "check_connection listed self = (case listed of Inr _ \<Rightarrow> Inr True | Inl _ \<Rightarrow> Inr False)"

subsection \<open>Sequences of operations on one brain\<close>

datatype op =
    Generate chat_fn string "string option"
  | Summary
  | CheckConnection "exn + string list"

fun step :: "LLMBrain \<Rightarrow> op \<Rightarrow> LLMBrain" where
  "step b (Generate chat prompt system_message) = snd (generate_response chat b prompt system_message)"
| "step b Summary = b"
| "step b (CheckConnection listed) = b"

definition run :: "LLMBrain \<Rightarrow> op list \<Rightarrow> LLMBrain" where
  "run b ops = foldl step b ops"

subsection \<open>Engines for the examples\<close>

text \<open>
  Two behaviours of the external engine, used where a property is shown at a concrete
  call: one whose \<^verbatim>\<open>chat\<close> answers every request with a given text, and one that
  cannot be reached.
\<close>

definition replying :: "string \<Rightarrow> chat_fn" where
  "replying reply = (\<lambda>model0 messages. Inr [''message'' \<mapsto> [''content'' \<mapsto> reply]])"

definition unreachable :: chat_fn where
  "unreachable = (\<lambda>model0 messages. Inl (ConnectionError ''connection refused''))"

section \<open>Facts about the rounding\<close>

text \<open>
  The binary logarithm brackets its argument; rounding to an integer is monotone and
  leaves integers alone. From these: \<open>fl\<close> is monotone on the non-negative rationals,
  positive on the positive ones, and leaves a value of at most 53 significant bits as it
  is, so rounding twice is rounding once. Rounding moves a positive value by at most
  \<open>2\<^sup>-\<^sup>5\<^sup>3\<close> of itself.
\<close>

lemma bitlen_ge_one: "0 < n \<Longrightarrow> 1 \<le> bitlen n"
  by (simp add: bitlen_alt_def)

lemma bitlen_rat_bounds:
  assumes "0 < n"
  shows "(2::rat) powi (bitlen n - 1) \<le> of_int n" and "(of_int n :: rat) + 1 \<le> 2 powi bitlen n"
proof -
  have b: "1 \<le> bitlen n" using assms by (rule bitlen_ge_one)
  from bitlen_bounds[OF assms]
  have lo: "2 ^ nat (bitlen n - 1) \<le> n" and hi: "n + 1 \<le> 2 ^ nat (bitlen n)" by auto
  have "(2::rat) powi (bitlen n - 1) = of_int (2 ^ nat (bitlen n - 1))"
    using b by (simp add: power_int_def)
  also have "\<dots> \<le> of_int n" using lo by (simp only: of_int_le_iff)
  finally show "(2::rat) powi (bitlen n - 1) \<le> of_int n" .
  have "(of_int n :: rat) + 1 = of_int (n + 1)" by simp
  also have "\<dots> \<le> of_int (2 ^ nat (bitlen n))" using hi by (simp only: of_int_le_iff)
  also have "\<dots> = 2 powi bitlen n" using b by (simp add: power_int_def)
  finally show "(of_int n :: rat) + 1 \<le> 2 powi bitlen n" .
qed

lemma ilog2_bounds:
  assumes "0 < x"
  shows "2 powi ilog2 x \<le> x" and "x < 2 powi (ilog2 x + 1)"
proof -
  have "2 powi ilog2 x \<le> x \<and> x < 2 powi (ilog2 x + 1)"
  proof (cases "1 \<le> x")
    case True
    define n where "n = \<lfloor>x\<rfloor>"
    have npos: "0 < n" using True by (simp add: n_def)
    have e: "ilog2 x = bitlen n - 1" using True by (simp add: ilog2_def n_def)
    have "of_int n \<le> x" by (simp add: n_def)
    moreover have "x < of_int n + 1" using floor_correct[of x] by (simp add: n_def)
    ultimately show ?thesis
      using bitlen_rat_bounds[OF npos] by (simp add: e)
  next
    case False
    define n where "n = \<lceil>1 / x\<rceil> - 1"
    have y: "1 < 1 / x" using False assms by simp
    have npos: "0 < n" using y by (simp add: n_def less_ceiling_iff)
    have e: "ilog2 x = - bitlen n" using False by (simp add: ilog2_def n_def)
    have lo: "of_int n < 1 / x" using ceiling_correct[of "1 / x"] by (simp add: n_def)
    have hi: "1 / x \<le> of_int n + 1" using ceiling_correct[of "1 / x"] by (simp add: n_def)
    have p: "(0::rat) < 2 powi bitlen n" "(0::rat) < 2 powi (bitlen n - 1)"
      by (simp_all add: zero_less_power_int)
    have "1 / x \<le> 2 powi bitlen n" using hi bitlen_rat_bounds(2)[OF npos] by simp
    then have "1 \<le> x * 2 powi bitlen n" using assms by (simp add: field_simps)
    then have A: "2 powi (- bitlen n) \<le> x"
      using p(1) by (simp add: power_int_minus field_simps)
    have "2 powi (bitlen n - 1) < 1 / x" using lo bitlen_rat_bounds(1)[OF npos] by simp
    then have "x * 2 powi (bitlen n - 1) < 1" using assms by (simp add: field_simps)
    then have "x < 1 / 2 powi (bitlen n - 1)" using p(2) by (simp add: field_simps)
    also have "\<dots> = 2 powi (- (bitlen n - 1))" by (simp only: power_int_minus_divide)
    also have "- (bitlen n - 1) = - bitlen n + 1" by simp
    finally show ?thesis using A by (simp add: e)
  qed
  then show "2 powi ilog2 x \<le> x" and "x < 2 powi (ilog2 x + 1)" by simp_all
qed

lemma ilog2_unique:
  assumes "2 powi e \<le> x" and "x < 2 powi (e + 1)"
  shows "ilog2 x = e"
proof -
  have xpos: "0 < x"
    by (rule less_le_trans[OF _ assms(1)]) (simp add: zero_less_power_int)
  note b = ilog2_bounds[OF xpos]
  have "\<not> ilog2 x < e"
  proof
    assume "ilog2 x < e"
    then have "ilog2 x + 1 \<le> e" by simp
    then have "(2::rat) powi (ilog2 x + 1) \<le> 2 powi e" by (rule power_int_increasing) simp
    with b(2) assms(1) show False by simp
  qed
  moreover have "\<not> e < ilog2 x"
  proof
    assume "e < ilog2 x"
    then have "e + 1 \<le> ilog2 x" by simp
    then have "(2::rat) powi (e + 1) \<le> 2 powi ilog2 x" by (rule power_int_increasing) simp
    with b(1) assms(2) show False by simp
  qed
  ultimately show ?thesis by simp
qed

lemma ilog2_mono:
  assumes "0 < x" and "x \<le> y"
  shows "ilog2 x \<le> ilog2 y"
proof (rule ccontr)
  assume "\<not> ilog2 x \<le> ilog2 y"
  then have "ilog2 y + 1 \<le> ilog2 x" by simp
  then have "(2::rat) powi (ilog2 y + 1) \<le> 2 powi ilog2 x" by (rule power_int_increasing) simp
  moreover have "0 < y" using assms by simp
  ultimately show False using ilog2_bounds(1)[OF assms(1)] ilog2_bounds(2)[of y] assms(2) by simp
qed

lemma round_half_even_of_int: "round_half_even (of_int n) = n"
  by (simp add: round_half_even_def)

lemma round_half_even_mono:
  assumes "x \<le> y"
  shows "round_half_even x \<le> round_half_even y"
proof (cases "\<lfloor>x\<rfloor> = \<lfloor>y\<rfloor>")
  case True
  then show ?thesis using assms by (auto simp: round_half_even_def Let_def)
next
  case False
  then have "\<lfloor>x\<rfloor> + 1 \<le> \<lfloor>y\<rfloor>" using floor_mono[OF assms] by simp
  moreover have "round_half_even x \<le> \<lfloor>x\<rfloor> + 1" by (simp add: round_half_even_def Let_def)
  moreover have "\<lfloor>y\<rfloor> \<le> round_half_even y" by (simp add: round_half_even_def Let_def)
  ultimately show ?thesis by simp
qed

lemma round_half_even_ge: "of_int n \<le> x \<Longrightarrow> n \<le> round_half_even x"
  using round_half_even_mono[of "of_int n" x] by (simp add: round_half_even_of_int)

lemma round_half_even_le: "x \<le> of_int n \<Longrightarrow> round_half_even x \<le> n"
  using round_half_even_mono[of x "of_int n"] by (simp add: round_half_even_of_int)


lemma two_powi_add: "(2::rat) powi (a + b) = 2 powi a * 2 powi b"
  by (rule power_int_add) simp

lemma two_powi_succ: "(2::rat) ^ 53 * 2 powi e = 2 ^ 52 * 2 powi (e + 1)"
  by (simp add: two_powi_add)

lemma fl_pos_eq:
  assumes "0 < x"
  shows "fl x = of_int (round_half_even (x / 2 powi (ilog2 x - 52))) * 2 powi (ilog2 x - 52)"
  using assms by (simp add: fl_def Let_def)

lemma scaled_bounds:
  assumes "0 < x"
  shows "2 ^ 52 \<le> x / 2 powi (ilog2 x - 52)" and "x / 2 powi (ilog2 x - 52) < 2 ^ 53"
proof -
  have p: "(0::rat) < 2 powi (ilog2 x - 52)" by (simp add: zero_less_power_int)
  have "(2::rat) ^ 52 * 2 powi (ilog2 x - 52) = 2 powi 52 * 2 powi (ilog2 x - 52)" by simp
  also have "\<dots> = 2 powi (52 + (ilog2 x - 52))" by (simp only: two_powi_add)
  also have "\<dots> = 2 powi ilog2 x" by simp
  finally have a: "(2::rat) ^ 52 * 2 powi (ilog2 x - 52) = 2 powi ilog2 x" .
  have "(2::rat) ^ 53 * 2 powi (ilog2 x - 52) = 2 powi 53 * 2 powi (ilog2 x - 52)" by simp
  also have "\<dots> = 2 powi (53 + (ilog2 x - 52))" by (simp only: two_powi_add)
  also have "53 + (ilog2 x - 52) = ilog2 x + 1" by simp
  finally have b: "(2::rat) ^ 53 * 2 powi (ilog2 x - 52) = 2 powi (ilog2 x + 1)" .
  show "2 ^ 52 \<le> x / 2 powi (ilog2 x - 52)"
    using ilog2_bounds(1)[OF assms] p a by (simp add: pos_le_divide_eq)
  show "x / 2 powi (ilog2 x - 52) < 2 ^ 53"
    using ilog2_bounds(2)[OF assms] p b by (simp add: pos_divide_less_eq)
qed

lemma mantissa_bounds:
  assumes "0 < x"
  shows "2 ^ 52 \<le> round_half_even (x / 2 powi (ilog2 x - 52))"
    and "round_half_even (x / 2 powi (ilog2 x - 52)) \<le> 2 ^ 53"
proof -
  show "2 ^ 52 \<le> round_half_even (x / 2 powi (ilog2 x - 52))"
    using scaled_bounds(1)[OF assms] by (intro round_half_even_ge) simp
  show "round_half_even (x / 2 powi (ilog2 x - 52)) \<le> 2 ^ 53"
    using scaled_bounds(2)[OF assms] by (intro round_half_even_le) simp
qed

lemma fl_lower:
  assumes "0 < x"
  shows "2 ^ 52 * 2 powi (ilog2 x - 52) \<le> fl x"
proof -
  have "(2::rat) ^ 52 \<le> of_int (round_half_even (x / 2 powi (ilog2 x - 52)))"
    using mantissa_bounds(1)[OF assms] by (metis of_int_le_iff of_int_numeral of_int_power)
  then show ?thesis
    by (simp add: fl_pos_eq[OF assms] zero_less_power_int mult_right_mono)
qed

lemma fl_upper:
  assumes "0 < x"
  shows "fl x \<le> 2 ^ 53 * 2 powi (ilog2 x - 52)"
proof -
  have "of_int (round_half_even (x / 2 powi (ilog2 x - 52))) \<le> (2::rat) ^ 53"
    using mantissa_bounds(2)[OF assms] by (metis of_int_le_iff of_int_numeral of_int_power)
  then show ?thesis
    by (simp add: fl_pos_eq[OF assms] zero_less_power_int mult_right_mono)
qed

lemma fl_pos: "0 < x \<Longrightarrow> 0 < fl x"
proof -
  assume x: "0 < x"
  have "(0::rat) < 2 ^ 52 * 2 powi (ilog2 x - 52)" by (simp add: zero_less_power_int)
  then show "0 < fl x" using fl_lower[OF x] by (rule less_le_trans)
qed

lemma fl_zero: "fl 0 = 0"
  by (simp add: fl_def)

lemma fl_nonneg: "0 \<le> x \<Longrightarrow> 0 \<le> fl x"
  using fl_pos[of x] by (cases "x = 0") (simp_all add: fl_zero less_imp_le)

lemma fl_mono_pos:
  assumes "0 < x" and "x \<le> y"
  shows "fl x \<le> fl y"
proof -
  have y: "0 < y" using assms by simp
  have le: "ilog2 x \<le> ilog2 y" using assms by (rule ilog2_mono)
  show ?thesis
  proof (cases "ilog2 x = ilog2 y")
    case True
    have "x / 2 powi (ilog2 y - 52) \<le> y / 2 powi (ilog2 y - 52)"
      using assms(2) by (simp add: divide_right_mono zero_less_power_int less_imp_le)
    then have "round_half_even (x / 2 powi (ilog2 y - 52)) \<le> round_half_even (y / 2 powi (ilog2 y - 52))"
      by (rule round_half_even_mono)
    then show ?thesis
      by (simp add: fl_pos_eq[OF assms(1)] fl_pos_eq[OF y] True zero_less_power_int)
  next
    case False
    then have "ilog2 x - 52 + 1 \<le> ilog2 y - 52" using le by simp
    then have "(2::rat) powi (ilog2 x - 52 + 1) \<le> 2 powi (ilog2 y - 52)"
      by (rule power_int_increasing) simp
    moreover have "(2::rat) ^ 53 * 2 powi (ilog2 x - 52) = 2 ^ 52 * 2 powi (ilog2 x - 52 + 1)"
      by (rule two_powi_succ)
    ultimately have "(2::rat) ^ 53 * 2 powi (ilog2 x - 52) \<le> 2 ^ 52 * 2 powi (ilog2 y - 52)"
      by simp
    then show ?thesis using fl_upper[OF assms(1)] fl_lower[OF y] by simp
  qed
qed

lemma fl_mono:
  assumes "0 \<le> x" and "x \<le> y"
  shows "fl x \<le> fl y"
proof (cases "x = 0")
  case True
  then show ?thesis using assms fl_nonneg[of y] by (simp add: fl_zero)
next
  case False
  then show ?thesis using assms by (intro fl_mono_pos) simp_all
qed


lemma fl_representable:
  assumes "0 < m" and "m \<le> 2 ^ 53"
  shows "fl (of_int m * 2 powi k) = of_int m * 2 powi k"
proof -
  define x :: rat where "x = of_int m * 2 powi k"
  define e where "e = ilog2 x - 52"
  have pk: "(0::rat) < 2 powi k" and pe: "(0::rat) < 2 powi e"
    by (simp_all add: zero_less_power_int)
  have xpos: "0 < x" using assms(1) pk by (simp add: x_def)
  have "(of_int m :: rat) \<le> of_int (2 ^ 53)" using assms(2) by (simp only: of_int_le_iff)
  then have "x \<le> 2 powi 53 * 2 powi k" using pk by (simp add: x_def)
  then have xle: "x \<le> 2 powi (53 + k)" by (simp only: two_powi_add)
  have "\<exists>j. x / 2 powi e = of_int j"
  proof (cases "2 powi (53 + k) \<le> x")
    case True
    then have xeq: "x = 2 powi (53 + k)" using xle by simp
    have "(2::rat) powi (53 + k) < 2 powi (53 + k + 1)"
      by (rule power_int_strict_increasing) simp_all
    then have "ilog2 x = 53 + k" using True xeq by (intro ilog2_unique) simp_all
    then have "e = k + 1" by (simp add: e_def)
    then have "x / 2 powi e = 2 powi (52 + (k + 1)) / 2 powi (k + 1)"
      by (simp add: xeq add.commute add.left_commute)
    also have "\<dots> = 2 powi 52" by (simp only: two_powi_add) (simp add: zero_less_power_int)
    also have "\<dots> = of_int (2 ^ 52)" by simp
    finally show ?thesis ..
  next
    case False
    have "\<not> k < e"
    proof
      assume "k < e"
      then have "53 + k \<le> ilog2 x" by (simp add: e_def)
      then have "(2::rat) powi (53 + k) \<le> 2 powi ilog2 x" by (rule power_int_increasing) simp
      then show False using ilog2_bounds(1)[OF xpos] False by simp
    qed
    then have ek: "e \<le> k" by simp
    have "(2::rat) powi (e + (k - e)) = 2 powi e * 2 powi (k - e)" by (rule two_powi_add)
    then have "(2::rat) powi k = 2 powi e * 2 powi (k - e)" by simp
    moreover have "(2::rat) powi (k - e) = of_int (2 ^ nat (k - e))"
      using ek by (simp add: power_int_def)
    ultimately have "x / 2 powi e = of_int (m * 2 ^ nat (k - e))"
      using pe by (simp add: x_def)
    then show ?thesis ..
  qed
  then obtain j where j: "x / 2 powi e = of_int j" ..
  then have xj: "x = of_int j * 2 powi e" using pe by (simp add: field_simps)
  have "fl x = of_int (round_half_even (x / 2 powi e)) * 2 powi e"
    using fl_pos_eq[OF xpos] by (simp add: e_def)
  also have "\<dots> = of_int j * 2 powi e" by (simp only: j round_half_even_of_int)
  finally show ?thesis using xj by (simp add: x_def)
qed

lemma fl_idem:
  assumes "0 \<le> x"
  shows "fl (fl x) = fl x"
proof (cases "x = 0")
  case True
  then show ?thesis by (simp add: fl_zero)
next
  case False
  then have x: "0 < x" using assms by simp
  have "0 < round_half_even (x / 2 powi (ilog2 x - 52))"
    using mantissa_bounds(1)[OF x] by (rule less_le_trans[rotated]) simp
  then show ?thesis
    using mantissa_bounds(2)[OF x] by (simp only: fl_pos_eq[OF x] fl_representable)
qed

lemma round_half_even_error: "\<bar>of_int (round_half_even x) - x\<bar> \<le> 1 / 2"
proof -
  have "of_int \<lfloor>x\<rfloor> \<le> x" and "x < of_int \<lfloor>x\<rfloor> + 1"
    using floor_correct[of x] by simp_all
  then show ?thesis
    by (auto simp: round_half_even_def Let_def abs_le_iff)
qed

lemma fl_rel_error:
  assumes "0 < x"
  shows "\<bar>fl x - x\<bar> \<le> x / 2 ^ 53"
proof -
  define p :: rat where "p = 2 powi (ilog2 x - 52)"
  define s where "s = x / p"
  have p: "0 < p" by (simp add: p_def zero_less_power_int)
  have x: "x = s * p" using p by (simp add: s_def)
  have "2 ^ 52 \<le> s" using scaled_bounds(1)[OF assms] by (simp add: s_def p_def)
  then have "2 ^ 52 * p \<le> s * p" using p by (simp add: mult_right_mono)
  then have b: "p / 2 \<le> x / 2 ^ 53" by (simp add: x)
  have "fl x = of_int (round_half_even s) * p"
    using fl_pos_eq[OF assms] by (simp add: s_def p_def)
  then have "fl x - x = of_int (round_half_even s) * p - s * p"
    using x by simp
  then have "fl x - x = (of_int (round_half_even s) - s) * p"
    by (simp only: left_diff_distrib)
  then have "\<bar>fl x - x\<bar> = \<bar>of_int (round_half_even s) - s\<bar> * p"
    using p by (simp add: abs_mult)
  also have "\<dots> \<le> (1 / 2) * p"
    using round_half_even_error[of s] p by (intro mult_right_mono) simp_all
  finally show ?thesis using b by simp
qed

lemma fl_between:
  assumes "0 < x"
  shows "(1 - 1 / 2 ^ 53) * x \<le> fl x" and "fl x \<le> (1 + 1 / 2 ^ 53) * x"
proof -
  have "fl x - x \<le> x / 2 ^ 53" and "x - fl x \<le> x / 2 ^ 53"
    using fl_rel_error[OF assms] by (simp_all only: abs_le_iff minus_diff_eq)
  then show "(1 - 1 / 2 ^ 53) * x \<le> fl x" and "fl x \<le> (1 + 1 / 2 ^ 53) * x"
    by (simp_all add: algebra_simps)
qed

section \<open>Facts about the module\<close>

subsection \<open>Values of the cost formula\<close>

lemma cost_rate_value: "COST_PER_1K_TOKENS = 1080863910568919 / 72057594037927936"
  by code_simp

lemma truediv_1: "int_truediv 1 1000 = 1152921504606847 / 1152921504606846976"
  by code_simp

lemma truediv_2: "int_truediv 2 1000 = 1152921504606847 / 576460752303423488"
  by code_simp

lemma truediv_3: "int_truediv 3 1000 = 3458764513820541 / 1152921504606846976"
  by code_simp

lemma cost_1: "float_mul (int_truediv 1 1000) COST_PER_1K_TOKENS = 8854437155380585 / 590295810358705651712"
  unfolding truediv_1 cost_rate_value by code_simp

lemma cost_2: "float_mul (int_truediv 2 1000) COST_PER_1K_TOKENS = 8854437155380585 / 295147905179352825856"
  unfolding truediv_2 cost_rate_value by code_simp

lemma cost_3: "float_mul (int_truediv 3 1000) COST_PER_1K_TOKENS = 3320413933267719 / 73786976294838206464"
  unfolding truediv_3 cost_rate_value by code_simp

lemma cost_1_plus_2:
  "float_add (8854437155380585 / 590295810358705651712) (8854437155380585 / 295147905179352825856)
   = 6640827866535439 / 147573952589676412928"
  by code_simp

lemma cost_rate_div_1000: "float_truediv COST_PER_1K_TOKENS 1000 = 1106804644422573 / 73786976294838206464"
  unfolding cost_rate_value by code_simp


lemma nearest_15_millionths: "fl (15 / 1000000) = 8854437155380585 / 590295810358705651712"
  by code_simp

lemma nearest_45_millionths: "fl (45 / 1000000) = 6640827866535439 / 147573952589676412928"
  by code_simp

subsection \<open>Facts about the operations\<close>

lemma cost_rate_pos: "0 < COST_PER_1K_TOKENS"
  by (simp add: COST_PER_1K_TOKENS_def fl_pos)

lemma token_cost_mono:
  assumes "0 \<le> a" and "a \<le> b"
  shows "float_mul (int_truediv a 1000) COST_PER_1K_TOKENS
         \<le> float_mul (int_truediv b 1000) COST_PER_1K_TOKENS"
proof -
  have c: "0 \<le> COST_PER_1K_TOKENS" using cost_rate_pos by simp
  have q: "(0::rat) \<le> of_int a / of_int 1000" using assms(1) by simp
  have "(of_int a :: rat) / of_int 1000 \<le> of_int b / of_int 1000"
    using assms(2) by (simp add: divide_right_mono)
  then have d: "fl (of_int a / of_int 1000) \<le> fl (of_int b / of_int 1000)"
    using q by (intro fl_mono)
  have "0 \<le> fl (of_int a / of_int 1000)" using q by (rule fl_nonneg)
  then have "0 \<le> fl (of_int a / of_int 1000) * COST_PER_1K_TOKENS"
    using c by simp
  moreover have "fl (of_int a / of_int 1000) * COST_PER_1K_TOKENS
                 \<le> fl (of_int b / of_int 1000) * COST_PER_1K_TOKENS"
    using d c by (rule mult_right_mono)
  ultimately show ?thesis
    unfolding float_mul_def int_truediv_def by (rule fl_mono)
qed

lemma token_cost_pos:
  assumes "0 < a"
  shows "0 < float_mul (int_truediv a 1000) COST_PER_1K_TOKENS"
proof -
  have "(0::rat) < of_int a / of_int 1000" using assms by simp
  then have "0 < fl (of_int a / of_int 1000)" by (rule fl_pos)
  then have "0 < fl (of_int a / of_int 1000) * COST_PER_1K_TOKENS"
    using cost_rate_pos by simp
  then show ?thesis unfolding float_mul_def int_truediv_def by (rule fl_pos)
qed

lemma calc_tokens: "fst (calculate_simulated_cost s) = max 1 (int (length s) div 4)"
  by (simp add: calculate_simulated_cost_def CHARS_PER_TOKEN_def Let_def)

lemma calc_cost:
  "snd (calculate_simulated_cost s) =
     float_mul (int_truediv (fst (calculate_simulated_cost s)) 1000) COST_PER_1K_TOKENS"
  by (simp add: calculate_simulated_cost_def Let_def)

lemma calc_tokens_ge_1: "1 \<le> fst (calculate_simulated_cost s)"
  by (simp add: calc_tokens)

lemma calc_cost_pos: "0 < snd (calculate_simulated_cost s)"
  using calc_tokens_ge_1[of s] by (simp only: calc_cost) (intro token_cost_pos, simp)

lemma calc_empty:
  "calculate_simulated_cost [] = (1, 8854437155380585 / 590295810358705651712)"
  by (simp add: calculate_simulated_cost_def CHARS_PER_TOKEN_def cost_1)

lemma calc_8_chars:
  "calculate_simulated_cost ''aaaaaaaa'' = (2, 8854437155380585 / 295147905179352825856)"
  by (simp add: calculate_simulated_cost_def CHARS_PER_TOKEN_def cost_2)

lemma generate_response_Inl:
  assumes "generate_response chat self prompt system_message = (Inl e, b')"
  shows "b' = self"
  using assms
  by (auto simp: generate_response_def Let_def split: sum.splits prod.splits)

lemma generate_response_Inr:
  assumes "generate_response chat self prompt system_message = (Inr r, b')"
  shows "estimated_tokens r =
           fst (calculate_simulated_cost (input_text prompt system_message))
           + fst (calculate_simulated_cost (text_content r))"
    and "simulated_cost r =
           float_add (snd (calculate_simulated_cost (input_text prompt system_message)))
                     (snd (calculate_simulated_cost (text_content r)))"
    and "b' = self\<lparr>total_tokens_used := total_tokens_used self + estimated_tokens r,
                    total_cost_incurred := float_add (total_cost_incurred self) (simulated_cost r)\<rparr>"
    and "response_model r = model self"
  using assms
  by (auto simp: generate_response_def Let_def split: sum.splits prod.splits)

lemma generate_response_cases:
  obtains e where "generate_response chat self prompt system_message = (Inl e, self)"
  | r b' where "generate_response chat self prompt system_message = (Inr r, b')"
proof (cases "generate_response chat self prompt system_message")
  case (Pair res b')
  show ?thesis
  proof (cases res)
    case (Inl e)
    with Pair generate_response_Inl[of chat self prompt system_message e b'] that(1)
    show ?thesis by simp
  next
    case (Inr r)
    with Pair that(2) show ?thesis by simp
  qed
qed

lemma result_tokens_ge_2:
  assumes "generate_response chat self prompt system_message = (Inr r, b')"
  shows "2 \<le> estimated_tokens r"
  using calc_tokens_ge_1[of "input_text prompt system_message"] calc_tokens_ge_1[of "text_content r"]
  by (simp only: generate_response_Inr(1)[OF assms])

lemma result_cost_pos:
  assumes "generate_response chat self prompt system_message = (Inr r, b')"
  shows "0 < simulated_cost r"
proof -
  have "0 < snd (calculate_simulated_cost (input_text prompt system_message))
            + snd (calculate_simulated_cost (text_content r))"
    using calc_cost_pos[of "input_text prompt system_message"] calc_cost_pos[of "text_content r"]
    by simp
  then show ?thesis
    unfolding generate_response_Inr(2)[OF assms] float_add_def by (rule fl_pos)
qed


lemma token_cost_between:
  assumes "0 < t"
  shows "(1 - 1 / 2 ^ 53) * ((1 - 1 / 2 ^ 53) * (of_int t / 1000 * COST_PER_1K_TOKENS))
           \<le> float_mul (int_truediv t 1000) COST_PER_1K_TOKENS"
    and "float_mul (int_truediv t 1000) COST_PER_1K_TOKENS
           \<le> (1 + 1 / 2 ^ 53) * ((1 + 1 / 2 ^ 53) * (of_int t / 1000 * COST_PER_1K_TOKENS))"
proof -
  define a :: rat where "a = 1 - 1 / 2 ^ 53"
  define b :: rat where "b = 1 + 1 / 2 ^ 53"
  define c where "c = COST_PER_1K_TOKENS"
  define q :: rat where "q = of_int t / 1000"
  have a: "0 \<le> a" and b: "0 \<le> b" by (simp_all add: a_def b_def)
  have c: "0 < c" by (simp add: c_def cost_rate_pos)
  have q: "0 < q" using assms by (simp add: q_def)
  have d: "0 < fl q" using q by (rule fl_pos)
  have dc: "0 < fl q * c" using d c by simp
  have "a * q \<le> fl q" and "fl q \<le> b * q"
    using fl_between[OF q] by (simp_all add: a_def b_def)
  then have "a * q * c \<le> fl q * c" and "fl q * c \<le> b * q * c"
    using c by (simp_all add: mult_right_mono)
  then have "a * (a * q * c) \<le> a * (fl q * c)" and "b * (fl q * c) \<le> b * (b * q * c)"
    using a b by (simp_all add: mult_left_mono)
  moreover have "a * (fl q * c) \<le> fl (fl q * c)" and "fl (fl q * c) \<le> b * (fl q * c)"
    using fl_between[OF dc] by (simp_all add: a_def b_def)
  ultimately have "a * (a * (q * c)) \<le> fl (fl q * c)" and "fl (fl q * c) \<le> b * (b * (q * c))"
    by (simp_all add: mult.assoc)
  then show "(1 - 1 / 2 ^ 53) * ((1 - 1 / 2 ^ 53) * (of_int t / 1000 * COST_PER_1K_TOKENS))
           \<le> float_mul (int_truediv t 1000) COST_PER_1K_TOKENS"
    and "float_mul (int_truediv t 1000) COST_PER_1K_TOKENS
           \<le> (1 + 1 / 2 ^ 53) * ((1 + 1 / 2 ^ 53) * (of_int t / 1000 * COST_PER_1K_TOKENS))"
    unfolding float_mul_def int_truediv_def a_def b_def c_def q_def by simp_all
qed

lemma result_cost_near_formula:
  assumes "generate_response chat self prompt system_message = (Inr r, b')"
  shows "\<bar>simulated_cost r - of_int (estimated_tokens r) / 1000 * COST_PER_1K_TOKENS\<bar>
         \<le> of_int (estimated_tokens r) / 1000 * COST_PER_1K_TOKENS / 2 ^ 51"
proof -
  define a :: rat where "a = 1 - 1 / 2 ^ 53"
  define b :: rat where "b = 1 + 1 / 2 ^ 53"
  define ti where "ti = fst (calculate_simulated_cost (input_text prompt system_message))"
  define t_o where "t_o = fst (calculate_simulated_cost (text_content r))"
  define ci where "ci = float_mul (int_truediv ti 1000) COST_PER_1K_TOKENS"
  define co where "co = float_mul (int_truediv t_o 1000) COST_PER_1K_TOKENS"
  define E where "E = of_int (estimated_tokens r) / 1000 * COST_PER_1K_TOKENS"
  have a: "0 \<le> a" and b: "0 \<le> b" by (simp_all add: a_def b_def)
  have ti: "0 < ti" and t_o: "0 < t_o"
    using calc_tokens_ge_1[of "input_text prompt system_message"] calc_tokens_ge_1[of "text_content r"]
    by (simp_all add: ti_def t_o_def)
  have T: "estimated_tokens r = ti + t_o"
    using generate_response_Inr(1)[OF assms] by (simp add: ti_def t_o_def)
  have S: "simulated_cost r = fl (ci + co)"
    using generate_response_Inr(2)[OF assms]
    by (simp add: calc_cost ti_def t_o_def ci_def co_def float_add_def)
  have Esplit: "E = of_int ti / 1000 * COST_PER_1K_TOKENS + of_int t_o / 1000 * COST_PER_1K_TOKENS"
    by (simp add: E_def T algebra_simps add_divide_distrib)
  have Epos: "0 < E" using ti t_o cost_rate_pos by (simp add: E_def T)
  have "a * (a * (of_int ti / 1000 * COST_PER_1K_TOKENS)) \<le> ci"
    and "a * (a * (of_int t_o / 1000 * COST_PER_1K_TOKENS)) \<le> co"
    using token_cost_between(1)[OF ti] token_cost_between(1)[OF t_o]
    by (simp_all add: a_def ci_def co_def)
  then have lo: "a * (a * E) \<le> ci + co"
    by (simp add: Esplit distrib_left)
  have "ci \<le> b * (b * (of_int ti / 1000 * COST_PER_1K_TOKENS))"
    and "co \<le> b * (b * (of_int t_o / 1000 * COST_PER_1K_TOKENS))"
    using token_cost_between(2)[OF ti] token_cost_between(2)[OF t_o]
    by (simp_all add: b_def ci_def co_def)
  then have hi: "ci + co \<le> b * (b * E)"
    by (simp add: Esplit distrib_left)
  have pos: "0 < ci + co"
    using token_cost_pos[OF ti] token_cost_pos[OF t_o] by (simp add: ci_def co_def)
  have "a * (ci + co) \<le> fl (ci + co)" and "fl (ci + co) \<le> b * (ci + co)"
    using fl_between[OF pos] by (simp_all add: a_def b_def)
  moreover have "a * (a * (a * E)) \<le> a * (ci + co)" and "b * (ci + co) \<le> b * (b * (b * E))"
    using lo hi a b by (simp_all add: mult_left_mono)
  ultimately have l3: "a * (a * (a * E)) \<le> simulated_cost r"
    and h3: "simulated_cost r \<le> b * (b * (b * E))"
    by (simp_all add: S)
  have "a * (a * (a * E)) = (a * a * a) * E" and "b * (b * (b * E)) = (b * b * b) * E"
    by (simp_all add: mult.assoc)
  moreover have "1 - 1 / 2 ^ 51 \<le> a * a * a" and "b * b * b \<le> 1 + 1 / 2 ^ 51"
    by (simp_all add: a_def b_def)
  ultimately have "(1 - 1 / 2 ^ 51) * E \<le> a * (a * (a * E))"
    and "b * (b * (b * E)) \<le> (1 + 1 / 2 ^ 51) * E"
    using Epos by (simp_all add: mult_right_mono)
  then have "(1 - 1 / 2 ^ 51) * E \<le> simulated_cost r"
    and "simulated_cost r \<le> (1 + 1 / 2 ^ 51) * E"
    using l3 h3 by simp_all
  then have "simulated_cost r - E \<le> E / 2 ^ 51" and "E - simulated_cost r \<le> E / 2 ^ 51"
    by (simp_all add: algebra_simps)
  then have "\<bar>simulated_cost r - E\<bar> \<le> E / 2 ^ 51"
    by (simp only: abs_le_iff minus_diff_eq)
  then show ?thesis by (simp add: E_def)
qed

lemma result_cost_near_float_formula:
  assumes "generate_response chat self prompt system_message = (Inr r, b')"
  shows "\<bar>simulated_cost r - float_mul (int_truediv (estimated_tokens r) 1000) COST_PER_1K_TOKENS\<bar>
         \<le> float_mul (int_truediv (estimated_tokens r) 1000) COST_PER_1K_TOKENS / 2 ^ 50"
proof -
  define a :: rat where "a = 1 - 1 / 2 ^ 53"
  define b :: rat where "b = 1 + 1 / 2 ^ 53"
  define E where "E = of_int (estimated_tokens r) / 1000 * COST_PER_1K_TOKENS"
  define F where "F = float_mul (int_truediv (estimated_tokens r) 1000) COST_PER_1K_TOKENS"
  define S where "S = simulated_cost r"
  have T: "0 < estimated_tokens r" using result_tokens_ge_2[OF assms] by simp
  have E: "0 \<le> E" using T cost_rate_pos by (simp add: E_def)
  have lo: "a * a * E \<le> F" and hi: "F \<le> b * b * E"
    using token_cost_between[OF T] by (simp_all add: a_def b_def E_def F_def mult.assoc)
  have "\<bar>S - E\<bar> \<le> E / 2 ^ 51"
    using result_cost_near_formula[OF assms] by (simp add: E_def S_def)
  then have "S - E \<le> E / 2 ^ 51" and "E - S \<le> E / 2 ^ 51"
    by (simp_all only: abs_le_iff minus_diff_eq)
  then have s_hi: "S \<le> (1 + 1 / 2 ^ 51) * E" and s_lo: "(1 - 1 / 2 ^ 51) * E \<le> S"
    by (simp_all add: algebra_simps)
  have k1: "(1 + 1 / 2 ^ 51) - a * a \<le> a * a / 2 ^ 50"
    and k2: "b * b - (1 - 1 / 2 ^ 51) \<le> a * a / 2 ^ 50"
    by (simp_all add: a_def b_def)
  have scale: "a * a / 2 ^ 50 * E \<le> F / 2 ^ 50"
    using lo by (simp add: divide_right_mono)
  have "S - F \<le> (1 + 1 / 2 ^ 51) * E - a * a * E" using s_hi lo by simp
  also have "\<dots> = ((1 + 1 / 2 ^ 51) - a * a) * E" by (simp only: left_diff_distrib)
  also have "\<dots> \<le> a * a / 2 ^ 50 * E" using k1 E by (rule mult_right_mono)
  finally have u: "S - F \<le> F / 2 ^ 50" using scale by simp
  have "F - S \<le> b * b * E - (1 - 1 / 2 ^ 51) * E" using s_lo hi by simp
  also have "\<dots> = (b * b - (1 - 1 / 2 ^ 51)) * E" by (simp only: left_diff_distrib)
  also have "\<dots> \<le> a * a / 2 ^ 50 * E" using k2 E by (rule mult_right_mono)
  finally have l: "F - S \<le> F / 2 ^ 50" using scale by simp
  from u l have "\<bar>S - F\<bar> \<le> F / 2 ^ 50"
    by (simp only: abs_le_iff minus_diff_eq)
  then show ?thesis by (simp add: S_def F_def)
qed

lemma step_ledger:
  assumes "0 \<le> total_cost_incurred b" and "fl (total_cost_incurred b) = total_cost_incurred b"
  shows "total_tokens_used b \<le> total_tokens_used (step b x)"
    and "total_cost_incurred b \<le> total_cost_incurred (step b x)"
    and "fl (total_cost_incurred (step b x)) = total_cost_incurred (step b x)"
proof -
  have "total_tokens_used b \<le> total_tokens_used (step b x)
        \<and> total_cost_incurred b \<le> total_cost_incurred (step b x)
        \<and> fl (total_cost_incurred (step b x)) = total_cost_incurred (step b x)"
  proof (cases x)
    case (Generate chat prompt system_message)
    show ?thesis
    proof (rule generate_response_cases[of chat b prompt system_message])
      fix e
      assume "generate_response chat b prompt system_message = (Inl e, b)"
      then show ?thesis using assms(2) by (simp add: Generate)
    next
      fix r b'
      assume g: "generate_response chat b prompt system_message = (Inr r, b')"
      have t: "0 \<le> estimated_tokens r" using result_tokens_ge_2[OF g] by simp
      have c: "0 \<le> simulated_cost r" using result_cost_pos[OF g] by simp
      have "fl (total_cost_incurred b) \<le> fl (total_cost_incurred b + simulated_cost r)"
        using assms(1) c by (intro fl_mono) simp_all
      then have m: "total_cost_incurred b \<le> float_add (total_cost_incurred b) (simulated_cost r)"
        by (simp add: float_add_def assms(2))
      have "fl (fl (total_cost_incurred b + simulated_cost r))
            = fl (total_cost_incurred b + simulated_cost r)"
        using assms(1) c by (intro fl_idem) simp
      then show ?thesis
        using t m by (simp add: Generate g generate_response_Inr(3)[OF g] float_add_def)
    qed
  next
    case Summary
    then show ?thesis using assms(2) by simp
  next
    case (CheckConnection listed)
    then show ?thesis using assms(2) by simp
  qed
  then show "total_tokens_used b \<le> total_tokens_used (step b x)"
    and "total_cost_incurred b \<le> total_cost_incurred (step b x)"
    and "fl (total_cost_incurred (step b x)) = total_cost_incurred (step b x)"
    by simp_all
qed

lemma run_ledger:
  assumes "0 \<le> total_cost_incurred b" and "fl (total_cost_incurred b) = total_cost_incurred b"
  shows "total_tokens_used b \<le> total_tokens_used (run b ops)
         \<and> total_cost_incurred b \<le> total_cost_incurred (run b ops)
         \<and> fl (total_cost_incurred (run b ops)) = total_cost_incurred (run b ops)"
  using assms
proof (induction ops arbitrary: b)
  case Nil
  then show ?case by (simp add: run_def)
next
  case (Cons x ops)
  note s = step_ledger[OF Cons.prems, of x]
  have "0 \<le> total_cost_incurred (step b x)" using Cons.prems(1) s(2) by simp
  from Cons.IH[OF this s(3)] s(1) s(2) show ?case by (simp add: run_def)
qed

lemma run_append: "run b (ops @ ops') = run (run b ops) ops'"
  by (simp add: run_def)


subsection \<open>Two calls worked out\<close>

lemma cost_1_plus_1:
  "float_add (8854437155380585 / 590295810358705651712) (8854437155380585 / 590295810358705651712)
   = 8854437155380585 / 295147905179352825856"
  by code_simp

lemma call_empty_prompt_8_chars:
  "fst (generate_response (replying ''aaaaaaaa'') b [] None)
   = Inr \<lparr>text_content = ''aaaaaaaa'', estimated_tokens = 3,
          simulated_cost = 6640827866535439 / 147573952589676412928,
          response_model = model b\<rparr>"
  by (simp add: generate_response_def Let_def replying_def extract_content_def build_messages_def
      input_text_def or_empty_def calc_empty calc_8_chars cost_1_plus_2)

lemma call_empty_prompt_empty_reply:
  "fst (generate_response (replying []) b [] None)
   = Inr \<lparr>text_content = [], estimated_tokens = 2,
          simulated_cost = 8854437155380585 / 295147905179352825856,
          response_model = model b\<rparr>"
  by (simp add: generate_response_def Let_def replying_def extract_content_def build_messages_def
      input_text_def or_empty_def calc_empty cost_1_plus_1)

lemma call_with_system_message:
  "fst (generate_response (replying ''aaaaaaaa'') b ''abc'' (Some ''defgh''))
   = Inr \<lparr>text_content = ''aaaaaaaa'', estimated_tokens = 4,
          simulated_cost = float_add (8854437155380585 / 295147905179352825856)
                                     (8854437155380585 / 295147905179352825856),
          response_model = model b\<rparr>"
  by (simp add: generate_response_def Let_def replying_def extract_content_def build_messages_def
      input_text_def or_empty_def calc_8_chars calculate_simulated_cost_def CHARS_PER_TOKEN_def cost_2)

lemma fst_Inr_collapse: "fst p = Inr r \<Longrightarrow> p = (Inr r, snd p)"
  by (cases p) simp

section \<open>Properties\<close>

text \<open>
  C1. For every string \<open>s\<close>, the empty one included, \<open>calculate_simulated_cost s\<close> returns
  the token count \<open>max 1 (length s div 4)\<close>. On the empty string it returns exactly 1 token
  and the cost \<^verbatim>\<open>COST_PER_1K_TOKENS / 1000\<close>: the float it returns,
  \<^verbatim>\<open>(1 / 1000) * COST_PER_1K_TOKENS\<close>, is the float nearest to 0.015 / 1000, which is
  \<^verbatim>\<open>1.5e-05\<close>. It is within \<open>2\<^sup>-\<^sup>5\<^sup>2\<close> (relative) of the float quotient
  \<^verbatim>\<open>COST_PER_1K_TOKENS / 1000\<close> and within \<open>2\<^sup>-\<^sup>5\<^sup>3\<close> of the exact quotient of the
  float rate by 1000.
\<close>

theorem calculate_simulated_cost_tokens:
  "fst (calculate_simulated_cost s) = max 1 (int (length s) div 4)
   \<and> calculate_simulated_cost [] = (1, float_mul (int_truediv 1 1000) COST_PER_1K_TOKENS)
   \<and> snd (calculate_simulated_cost []) = fl (15 / 1000 / 1000)
   \<and> float_mul (int_truediv 1 1000) COST_PER_1K_TOKENS = 8854437155380585 / 590295810358705651712
   \<and> \<bar>snd (calculate_simulated_cost []) - float_truediv COST_PER_1K_TOKENS 1000\<bar>
       \<le> float_truediv COST_PER_1K_TOKENS 1000 / 2 ^ 52
   \<and> \<bar>snd (calculate_simulated_cost []) - COST_PER_1K_TOKENS / 1000\<bar>
       \<le> COST_PER_1K_TOKENS / 1000 / 2 ^ 53"
proof -
  have "snd (calculate_simulated_cost []) = fl (15 / 1000 / 1000)"
    using nearest_15_millionths by (simp add: calc_empty)
  moreover have "\<bar>snd (calculate_simulated_cost []) - float_truediv COST_PER_1K_TOKENS 1000\<bar>
        \<le> float_truediv COST_PER_1K_TOKENS 1000 / 2 ^ 52"
    by (simp add: calc_empty cost_rate_div_1000)
  moreover have "\<bar>snd (calculate_simulated_cost []) - COST_PER_1K_TOKENS / 1000\<bar>
        \<le> COST_PER_1K_TOKENS / 1000 / 2 ^ 53"
    by (simp add: calc_empty cost_rate_value)
  moreover have "calculate_simulated_cost [] = (1, float_mul (int_truediv 1 1000) COST_PER_1K_TOKENS)"
    by (simp add: calc_empty cost_1)
  ultimately show ?thesis by (simp only: calc_tokens cost_1)
qed

text \<open>
  C2. After a successful call of \<open>generate_response\<close>, \<open>total_tokens_used\<close> is its value
  before the call plus the result's \<open>estimated_tokens\<close>, and \<open>total_cost_incurred\<close> is its
  value before the call plus the result's \<open>simulated_cost\<close> (the sum of two floats).
\<close>

theorem ledger_accumulates:
  assumes "generate_response chat self prompt system_message = (Inr r, b')"
  shows "total_tokens_used b' = total_tokens_used self + estimated_tokens r
         \<and> total_cost_incurred b' = float_add (total_cost_incurred self) (simulated_cost r)"
  by (simp add: generate_response_Inr(3)[OF assms])

text \<open>
  A call on a brain whose ledger holds 3 tokens: the call adds its own 3 tokens and its
  own cost.
\<close>

theorem ledger_accumulates_witness:
  "fst (generate_response (replying ''aaaaaaaa'')
          \<lparr>model = DEFAULT_MODEL, host = OLLAMA_HOST, total_tokens_used = 3,
           total_cost_incurred = 6640827866535439 / 147573952589676412928\<rparr> [] None)
   = Inr \<lparr>text_content = ''aaaaaaaa'', estimated_tokens = 3,
          simulated_cost = 6640827866535439 / 147573952589676412928,
          response_model = DEFAULT_MODEL\<rparr>
   \<and> total_tokens_used (snd (generate_response (replying ''aaaaaaaa'')
          \<lparr>model = DEFAULT_MODEL, host = OLLAMA_HOST, total_tokens_used = 3,
           total_cost_incurred = 6640827866535439 / 147573952589676412928\<rparr> [] None)) = 3 + 3
   \<and> total_cost_incurred (snd (generate_response (replying ''aaaaaaaa'')
          \<lparr>model = DEFAULT_MODEL, host = OLLAMA_HOST, total_tokens_used = 3,
           total_cost_incurred = 6640827866535439 / 147573952589676412928\<rparr> [] None))
     = float_add (6640827866535439 / 147573952589676412928)
                 (6640827866535439 / 147573952589676412928)"
proof -
  define b where "b = \<lparr>model = DEFAULT_MODEL, host = OLLAMA_HOST, total_tokens_used = 3,
           total_cost_incurred = 6640827866535439 / 147573952589676412928\<rparr>"
  have h: "fst (generate_response (replying ''aaaaaaaa'') b [] None)
           = Inr \<lparr>text_content = ''aaaaaaaa'', estimated_tokens = 3,
                  simulated_cost = 6640827866535439 / 147573952589676412928,
                  response_model = DEFAULT_MODEL\<rparr>"
    by (simp add: call_empty_prompt_8_chars b_def)
  from ledger_accumulates[OF fst_Inr_collapse[OF h]] h
  show ?thesis by (simp add: b_def)
qed

text \<open>
  C3. When the engine's \<^verbatim>\<open>chat\<close> raises, \<open>generate_response\<close> raises the same exception
  to its caller and the brain is as it was: both ledger fields are unchanged. Whatever
  makes the call fail, the two ledger fields are unchanged. A call that returns a result
  has had a response from the engine, and the result's text is that response's content:
  the call's totals are formed and accumulated only then.
\<close>

theorem engine_failure_leaves_ledger:
  "(chat (model self) (build_messages prompt system_message) = Inl e \<longrightarrow>
      generate_response chat self prompt system_message = (Inl e, self))
   \<and> (fst (generate_response chat self prompt system_message) = Inl e' \<longrightarrow>
      total_tokens_used (snd (generate_response chat self prompt system_message))
        = total_tokens_used self
      \<and> total_cost_incurred (snd (generate_response chat self prompt system_message))
        = total_cost_incurred self)
   \<and> (generate_response chat self prompt system_message = (Inr r, b') \<longrightarrow>
      (\<exists>response. chat (model self) (build_messages prompt system_message) = Inr response
         \<and> extract_content response = Inr (text_content r)))"
proof -
  have "chat (model self) (build_messages prompt system_message) = Inl e \<longrightarrow>
      generate_response chat self prompt system_message = (Inl e, self)"
    by (simp add: generate_response_def Let_def split: prod.splits)
  moreover have "fst (generate_response chat self prompt system_message) = Inl e' \<longrightarrow>
      snd (generate_response chat self prompt system_message) = self"
    using generate_response_Inl[of chat self prompt system_message e']
    by (cases "generate_response chat self prompt system_message") simp
  moreover have "generate_response chat self prompt system_message = (Inr r, b') \<longrightarrow>
      (\<exists>response. chat (model self) (build_messages prompt system_message) = Inr response
         \<and> extract_content response = Inr (text_content r))"
    by (auto simp: generate_response_def Let_def split: sum.splits prod.splits)
  ultimately show ?thesis by simp
qed

text \<open>
  An engine that cannot be reached, called on a brain whose ledger holds 3 tokens; and
  the engine behind a call that succeeds.
\<close>

theorem engine_failure_leaves_ledger_witness:
  "generate_response unreachable
     \<lparr>model = DEFAULT_MODEL, host = OLLAMA_HOST, total_tokens_used = 3,
      total_cost_incurred = 6640827866535439 / 147573952589676412928\<rparr> ''What is EC2?'' (Some ''Be concise.'')
   = (Inl (ConnectionError ''connection refused''),
      \<lparr>model = DEFAULT_MODEL, host = OLLAMA_HOST, total_tokens_used = 3,
       total_cost_incurred = 6640827866535439 / 147573952589676412928\<rparr>)
   \<and> total_tokens_used (snd (generate_response unreachable
     \<lparr>model = DEFAULT_MODEL, host = OLLAMA_HOST, total_tokens_used = 3,
      total_cost_incurred = 6640827866535439 / 147573952589676412928\<rparr> ''What is EC2?'' (Some ''Be concise.''))) = 3
   \<and> total_cost_incurred (snd (generate_response unreachable
     \<lparr>model = DEFAULT_MODEL, host = OLLAMA_HOST, total_tokens_used = 3,
      total_cost_incurred = 6640827866535439 / 147573952589676412928\<rparr> ''What is EC2?'' (Some ''Be concise.'')))
     = 6640827866535439 / 147573952589676412928
   \<and> (\<exists>response. replying ''aaaaaaaa'' DEFAULT_MODEL (build_messages [] None) = Inr response
         \<and> extract_content response = Inr ''aaaaaaaa'')"
proof -
  define b where "b = \<lparr>model = DEFAULT_MODEL, host = OLLAMA_HOST, total_tokens_used = 3,
      total_cost_incurred = 6640827866535439 / 147573952589676412928\<rparr>"
  define b0 where "b0 = LLMBrain_init DEFAULT_MODEL OLLAMA_HOST"
  have u: "unreachable (model b) (build_messages ''What is EC2?'' (Some ''Be concise.''))
           = Inl (ConnectionError ''connection refused'')"
    by (simp add: unreachable_def)
  note t = engine_failure_leaves_ledger[of unreachable b "''What is EC2?''" "Some ''Be concise.''"
      "ConnectionError ''connection refused''" "ConnectionError ''connection refused''"]
  have g: "generate_response unreachable b ''What is EC2?'' (Some ''Be concise.'')
           = (Inl (ConnectionError ''connection refused''), b)"
    using t u by blast
  have h: "fst (generate_response (replying ''aaaaaaaa'') b0 [] None)
           = Inr \<lparr>text_content = ''aaaaaaaa'', estimated_tokens = 3,
                  simulated_cost = 6640827866535439 / 147573952589676412928,
                  response_model = DEFAULT_MODEL\<rparr>"
    by (simp add: call_empty_prompt_8_chars b0_def LLMBrain_init_def)
  have "\<exists>response. replying ''aaaaaaaa'' (model b0) (build_messages [] None) = Inr response
         \<and> extract_content response = Inr ''aaaaaaaa''"
    using engine_failure_leaves_ledger[of "replying ''aaaaaaaa''" b0 "[]" None _ _
        "\<lparr>text_content = ''aaaaaaaa'', estimated_tokens = 3,
                  simulated_cost = 6640827866535439 / 147573952589676412928,
                  response_model = DEFAULT_MODEL\<rparr>" "snd (generate_response (replying ''aaaaaaaa'') b0 [] None)"]
      fst_Inr_collapse[OF h] by simp
  then show ?thesis using g by (simp add: b_def b0_def LLMBrain_init_def)
qed


text \<open>
  C4. In every result of \<open>generate_response\<close>, \<open>estimated_tokens\<close> is the sum of the
  input-side and the output-side token estimates, the rate is the float \<^verbatim>\<open>0.015\<close>, and
  \<open>simulated_cost\<close> is \<^verbatim>\<open>(estimated_tokens / 1000) * COST_PER_1K_TOKENS\<close> as a float:
  it is the float sum of the two sides' costs, each of them
  \<^verbatim>\<open>(tokens / 1000) * COST_PER_1K_TOKENS\<close> of its own side bit for bit, and it is within
  \<open>2\<^sup>-\<^sup>5\<^sup>0\<close> (relative) of the float \<^verbatim>\<open>(estimated_tokens / 1000) * COST_PER_1K_TOKENS\<close>
  and within \<open>2\<^sup>-\<^sup>5\<^sup>1\<close> of the exact product.
\<close>

theorem result_cost_is_sum_of_costs:
  assumes "generate_response chat self prompt system_message = (Inr r, b')"
  shows "estimated_tokens r =
           fst (calculate_simulated_cost (input_text prompt system_message))
           + fst (calculate_simulated_cost (text_content r))
         \<and> simulated_cost r =
           float_add
             (float_mul (int_truediv (fst (calculate_simulated_cost (input_text prompt system_message))) 1000)
                COST_PER_1K_TOKENS)
             (float_mul (int_truediv (fst (calculate_simulated_cost (text_content r))) 1000)
                COST_PER_1K_TOKENS)
         \<and> COST_PER_1K_TOKENS = fl (15 / 1000)
         \<and> \<bar>simulated_cost r
              - float_mul (int_truediv (estimated_tokens r) 1000) COST_PER_1K_TOKENS\<bar>
             \<le> float_mul (int_truediv (estimated_tokens r) 1000) COST_PER_1K_TOKENS / 2 ^ 50
         \<and> \<bar>simulated_cost r - of_int (estimated_tokens r) / 1000 * COST_PER_1K_TOKENS\<bar>
             \<le> of_int (estimated_tokens r) / 1000 * COST_PER_1K_TOKENS / 2 ^ 51"
proof (intro conjI)
  show "estimated_tokens r =
          fst (calculate_simulated_cost (input_text prompt system_message))
          + fst (calculate_simulated_cost (text_content r))"
    by (rule generate_response_Inr(1)[OF assms])
  show "simulated_cost r =
          float_add
            (float_mul (int_truediv (fst (calculate_simulated_cost (input_text prompt system_message))) 1000)
               COST_PER_1K_TOKENS)
            (float_mul (int_truediv (fst (calculate_simulated_cost (text_content r))) 1000)
               COST_PER_1K_TOKENS)"
    using generate_response_Inr(2)[OF assms] by (simp only: calc_cost[symmetric])
  show "COST_PER_1K_TOKENS = fl (15 / 1000)"
    by (rule COST_PER_1K_TOKENS_def)
  show "\<bar>simulated_cost r
          - float_mul (int_truediv (estimated_tokens r) 1000) COST_PER_1K_TOKENS\<bar>
        \<le> float_mul (int_truediv (estimated_tokens r) 1000) COST_PER_1K_TOKENS / 2 ^ 50"
    by (rule result_cost_near_float_formula[OF assms])
  show "\<bar>simulated_cost r - of_int (estimated_tokens r) / 1000 * COST_PER_1K_TOKENS\<bar>
        \<le> of_int (estimated_tokens r) / 1000 * COST_PER_1K_TOKENS / 2 ^ 51"
    by (rule result_cost_near_formula[OF assms])
qed

text \<open>
  The empty prompt (1 token) answered by a text of 8 characters (2 tokens): the result's
  cost is \<^verbatim>\<open>4.5e-05\<close>, the float nearest to 3 / 1000 \<times> 0.015, and the float
  \<^verbatim>\<open>(3 / 1000) * COST_PER_1K_TOKENS\<close> is the float next to it.
\<close>

theorem result_cost_is_sum_of_costs_witness:
  "fst (generate_response (replying ''aaaaaaaa'') (LLMBrain_init DEFAULT_MODEL OLLAMA_HOST) [] None)
   = Inr \<lparr>text_content = ''aaaaaaaa'', estimated_tokens = 3,
          simulated_cost = 6640827866535439 / 147573952589676412928,
          response_model = DEFAULT_MODEL\<rparr>
   \<and> (3::int) = fst (calculate_simulated_cost (input_text [] None))
                + fst (calculate_simulated_cost ''aaaaaaaa'')
   \<and> (6640827866535439 / 147573952589676412928 :: rat) =
       float_add
         (float_mul (int_truediv (fst (calculate_simulated_cost (input_text [] None))) 1000)
            COST_PER_1K_TOKENS)
         (float_mul (int_truediv (fst (calculate_simulated_cost ''aaaaaaaa'')) 1000)
            COST_PER_1K_TOKENS)
   \<and> \<bar>6640827866535439 / 147573952589676412928
        - float_mul (int_truediv 3 1000) COST_PER_1K_TOKENS\<bar>
       \<le> float_mul (int_truediv 3 1000) COST_PER_1K_TOKENS / 2 ^ 50
   \<and> float_mul (int_truediv 3 1000) COST_PER_1K_TOKENS = 3320413933267719 / 73786976294838206464
   \<and> fl (45 / 1000000) = 6640827866535439 / 147573952589676412928"
proof -
  define b0 where "b0 = LLMBrain_init DEFAULT_MODEL OLLAMA_HOST"
  have h: "fst (generate_response (replying ''aaaaaaaa'') b0 [] None)
           = Inr \<lparr>text_content = ''aaaaaaaa'', estimated_tokens = 3,
                  simulated_cost = 6640827866535439 / 147573952589676412928,
                  response_model = DEFAULT_MODEL\<rparr>"
    by (simp add: call_empty_prompt_8_chars b0_def LLMBrain_init_def)
  from result_cost_is_sum_of_costs[OF fst_Inr_collapse[OF h]] h
  have "(3::int) = fst (calculate_simulated_cost (input_text [] None))
                + fst (calculate_simulated_cost ''aaaaaaaa'')"
    and "(6640827866535439 / 147573952589676412928 :: rat) =
       float_add
         (float_mul (int_truediv (fst (calculate_simulated_cost (input_text [] None))) 1000)
            COST_PER_1K_TOKENS)
         (float_mul (int_truediv (fst (calculate_simulated_cost ''aaaaaaaa'')) 1000)
            COST_PER_1K_TOKENS)"
    and "\<bar>6640827866535439 / 147573952589676412928
        - float_mul (int_truediv 3 1000) COST_PER_1K_TOKENS\<bar>
       \<le> float_mul (int_truediv 3 1000) COST_PER_1K_TOKENS / 2 ^ 50"
    by simp_all
  then show ?thesis
    using h cost_3 nearest_45_millionths by (simp only: b0_def)
qed

text \<open>
  C5. The input side of a result is the estimate of the system message (the empty
  string when there is none) followed by the prompt; with no system message it is the
  estimate of the prompt alone. The result's tokens and cost are that estimate plus the
  estimate of the returned text.
\<close>

theorem input_cost_from_concatenation:
  assumes "generate_response chat self prompt system_message = (Inr r, b')"
  shows "estimated_tokens r =
           fst (calculate_simulated_cost ((case system_message of None \<Rightarrow> [] | Some s \<Rightarrow> s) @ prompt))
           + fst (calculate_simulated_cost (text_content r))
         \<and> simulated_cost r =
           float_add
             (snd (calculate_simulated_cost ((case system_message of None \<Rightarrow> [] | Some s \<Rightarrow> s) @ prompt)))
             (snd (calculate_simulated_cost (text_content r)))
         \<and> (system_message = None \<longrightarrow>
              estimated_tokens r =
                fst (calculate_simulated_cost prompt) + fst (calculate_simulated_cost (text_content r))
              \<and> simulated_cost r =
                float_add (snd (calculate_simulated_cost prompt))
                          (snd (calculate_simulated_cost (text_content r))))"
proof -
  have "input_text prompt system_message
        = (case system_message of None \<Rightarrow> [] | Some s \<Rightarrow> s) @ prompt"
    by (simp add: input_text_def or_empty_def split: option.splits)
  then show ?thesis
    using generate_response_Inr(1,2)[OF assms] by auto
qed

text \<open>
  A call with the system message \<^verbatim>\<open>defgh\<close> and the prompt \<^verbatim>\<open>abc\<close>: 8 characters,
  2 tokens on the input side. A call with no system message and the empty prompt.
\<close>

theorem input_cost_from_concatenation_witness:
  "fst (generate_response (replying ''aaaaaaaa'') (LLMBrain_init DEFAULT_MODEL OLLAMA_HOST)
          ''abc'' (Some ''defgh''))
   = Inr \<lparr>text_content = ''aaaaaaaa'', estimated_tokens = 4,
          simulated_cost = float_add (8854437155380585 / 295147905179352825856)
                                     (8854437155380585 / 295147905179352825856),
          response_model = DEFAULT_MODEL\<rparr>
   \<and> (4::int) = fst (calculate_simulated_cost ''defghabc'') + fst (calculate_simulated_cost ''aaaaaaaa'')
   \<and> fst (generate_response (replying ''aaaaaaaa'') (LLMBrain_init DEFAULT_MODEL OLLAMA_HOST) [] None)
   = Inr \<lparr>text_content = ''aaaaaaaa'', estimated_tokens = 3,
          simulated_cost = 6640827866535439 / 147573952589676412928,
          response_model = DEFAULT_MODEL\<rparr>
   \<and> (3::int) = fst (calculate_simulated_cost []) + fst (calculate_simulated_cost ''aaaaaaaa'')
   \<and> (6640827866535439 / 147573952589676412928 :: rat)
       = float_add (snd (calculate_simulated_cost [])) (snd (calculate_simulated_cost ''aaaaaaaa''))"
proof -
  define b0 where "b0 = LLMBrain_init DEFAULT_MODEL OLLAMA_HOST"
  have h1: "fst (generate_response (replying ''aaaaaaaa'') b0 ''abc'' (Some ''defgh''))
            = Inr \<lparr>text_content = ''aaaaaaaa'', estimated_tokens = 4,
                   simulated_cost = float_add (8854437155380585 / 295147905179352825856)
                                              (8854437155380585 / 295147905179352825856),
                   response_model = DEFAULT_MODEL\<rparr>"
    by (simp add: call_with_system_message b0_def LLMBrain_init_def)
  have h2: "fst (generate_response (replying ''aaaaaaaa'') b0 [] None)
            = Inr \<lparr>text_content = ''aaaaaaaa'', estimated_tokens = 3,
                   simulated_cost = 6640827866535439 / 147573952589676412928,
                   response_model = DEFAULT_MODEL\<rparr>"
    by (simp add: call_empty_prompt_8_chars b0_def LLMBrain_init_def)
  from input_cost_from_concatenation[OF fst_Inr_collapse[OF h1]]
       input_cost_from_concatenation[OF fst_Inr_collapse[OF h2]] h1 h2
  show ?thesis by (simp add: b0_def)
qed


text \<open>
  C6. Both ledger fields are zero in a new brain, and along any sequence of
  \<open>generate_response\<close> calls (failed or not), summaries and connection checks, neither
  field is ever smaller after a longer run than after a shorter one.
\<close>

theorem ledger_zero_then_never_decreases:
  "total_tokens_used (LLMBrain_init model0 host0) = 0
   \<and> total_cost_incurred (LLMBrain_init model0 host0) = 0
   \<and> total_tokens_used (run (LLMBrain_init model0 host0) ops)
       \<le> total_tokens_used (run (LLMBrain_init model0 host0) (ops @ ops'))
   \<and> total_cost_incurred (run (LLMBrain_init model0 host0) ops)
       \<le> total_cost_incurred (run (LLMBrain_init model0 host0) (ops @ ops'))"
proof -
  define b0 where "b0 = LLMBrain_init model0 host0"
  have z: "total_tokens_used b0 = 0" "total_cost_incurred b0 = 0"
    by (simp_all add: b0_def LLMBrain_init_def)
  have "0 \<le> total_cost_incurred b0" and "fl (total_cost_incurred b0) = total_cost_incurred b0"
    by (simp_all add: z fl_zero)
  from run_ledger[OF this, of ops]
  have i: "0 \<le> total_cost_incurred (run b0 ops)"
    and r: "fl (total_cost_incurred (run b0 ops)) = total_cost_incurred (run b0 ops)"
    by (simp_all add: z)
  from run_ledger[OF i r, of ops'] z show ?thesis
    by (simp add: run_append b0_def)
qed

text \<open>
  C7. A text that is no longer than another has no more tokens and no higher cost; every
  text has at least 1 token and at least the cost of 1 token.
\<close>

theorem estimate_monotone_in_length:
  "(length s \<le> length t \<longrightarrow>
      fst (calculate_simulated_cost s) \<le> fst (calculate_simulated_cost t)
      \<and> snd (calculate_simulated_cost s) \<le> snd (calculate_simulated_cost t))
   \<and> 1 \<le> fst (calculate_simulated_cost u)
   \<and> float_mul (int_truediv 1 1000) COST_PER_1K_TOKENS \<le> snd (calculate_simulated_cost u)"
proof -
  have m: "fst (calculate_simulated_cost s) \<le> fst (calculate_simulated_cost t)"
    if "length s \<le> length t"
  proof -
    have "int (length s) div 4 \<le> int (length t) div 4"
      using that by (intro zdiv_mono1) simp_all
    then show ?thesis by (simp add: calc_tokens)
  qed
  have c: "snd (calculate_simulated_cost s) \<le> snd (calculate_simulated_cost t)"
    if "length s \<le> length t"
    using calc_tokens_ge_1[of s] m[OF that]
    by (simp only: calc_cost) (intro token_cost_mono, simp_all)
  have "float_mul (int_truediv 1 1000) COST_PER_1K_TOKENS \<le> snd (calculate_simulated_cost u)"
    using calc_tokens_ge_1[of u]
    by (simp only: calc_cost) (intro token_cost_mono, simp_all)
  then show ?thesis using m c calc_tokens_ge_1[of u] by blast
qed

text \<open>
  Three characters against eight: 1 token against 2.
\<close>

theorem estimate_monotone_in_length_witness:
  "length ''abc'' \<le> length ''aaaaaaaa''
   \<and> fst (calculate_simulated_cost ''abc'') \<le> fst (calculate_simulated_cost ''aaaaaaaa'')
   \<and> snd (calculate_simulated_cost ''abc'') \<le> snd (calculate_simulated_cost ''aaaaaaaa'')
   \<and> fst (calculate_simulated_cost ''abc'') = 1
   \<and> fst (calculate_simulated_cost ''aaaaaaaa'') = 2"
proof -
  have h: "length ''abc'' \<le> length ''aaaaaaaa''" by simp
  from estimate_monotone_in_length[of "''abc''" "''aaaaaaaa''"] h
  show ?thesis by (simp add: calc_tokens)
qed

text \<open>
  C8. \<open>check_connection\<close> returns \<^verbatim>\<open>True\<close> when listing the models succeeds and
  \<^verbatim>\<open>False\<close> when it raises; in every case it returns and does not raise. (What the
  engine raises is an \<^verbatim>\<open>Exception\<close>, which is what the \<^verbatim>\<open>except\<close> clause catches.)
\<close>

theorem check_connection_never_raises:
  "check_connection (Inr models) self = Inr True
   \<and> check_connection (Inl e) self = Inr False
   \<and> (\<exists>ok. check_connection listed self = Inr ok)"
  by (cases listed) (auto simp: check_connection_def)

text \<open>
  C9. A call of \<open>generate_response\<close> with the empty string as system message does what
  the call with no system message does: the messages sent to the engine are the user
  message alone, the input cost is the cost of the prompt, and the result and the brain
  after the call are the same.
\<close>

theorem empty_system_message_same_as_none:
  "build_messages prompt (Some []) = [\<lparr>role = ''user'', content = prompt\<rparr>]
   \<and> build_messages prompt None = [\<lparr>role = ''user'', content = prompt\<rparr>]
   \<and> input_text prompt (Some []) = prompt
   \<and> input_text prompt None = prompt
   \<and> generate_response chat self prompt (Some []) = generate_response chat self prompt None"
  by (simp add: generate_response_def build_messages_def input_text_def or_empty_def)

text \<open>
  C10. Every result of \<open>generate_response\<close> has at least 2 tokens and a positive cost.
\<close>

theorem result_at_least_two_tokens:
  assumes "generate_response chat self prompt system_message = (Inr r, b')"
  shows "2 \<le> estimated_tokens r \<and> 0 < simulated_cost r"
  using result_tokens_ge_2[OF assms] result_cost_pos[OF assms] by simp

text \<open>
  The empty prompt answered by the empty text: exactly 2 tokens.
\<close>

theorem result_at_least_two_tokens_witness:
  "fst (generate_response (replying []) (LLMBrain_init DEFAULT_MODEL OLLAMA_HOST) [] None)
   = Inr \<lparr>text_content = [], estimated_tokens = 2,
          simulated_cost = 8854437155380585 / 295147905179352825856,
          response_model = DEFAULT_MODEL\<rparr>
   \<and> (2::int) \<le> estimated_tokens \<lparr>text_content = [], estimated_tokens = 2,
          simulated_cost = 8854437155380585 / 295147905179352825856,
          response_model = DEFAULT_MODEL\<rparr>
   \<and> (0::rat) < simulated_cost \<lparr>text_content = [], estimated_tokens = 2,
          simulated_cost = 8854437155380585 / 295147905179352825856,
          response_model = DEFAULT_MODEL\<rparr>"
proof -
  define b0 where "b0 = LLMBrain_init DEFAULT_MODEL OLLAMA_HOST"
  have h: "fst (generate_response (replying []) b0 [] None)
           = Inr \<lparr>text_content = [], estimated_tokens = 2,
                  simulated_cost = 8854437155380585 / 295147905179352825856,
                  response_model = DEFAULT_MODEL\<rparr>"
    by (simp add: call_empty_prompt_empty_reply b0_def LLMBrain_init_def)
  from result_at_least_two_tokens[OF fst_Inr_collapse[OF h]] h
  show ?thesis by (simp add: b0_def)
qed

end
